theory Spec2Isabelle
  imports Main "HOL-Library.Word"
begin

section \<open>Traversal id mapping: \<open>pyramid_web20/system/crud/mapper.py\<close>\<close>

text \<open>
  The module maps URL path segments to database ids and back. It consists of a class
  \<open>IdMapper\<close> with four class-level attributes, a constructor that may override them on
  the instance, two methods that call the attributes, and a subclass
  \<open>Base64UUIDMapper\<close> that replaces the four class-level attributes.

  The embedding keeps the parts of Python's object model that decide what these few lines
  do: the instance dictionary and the class dictionaries, attribute lookup along the
  method resolution order, the binding of plain functions found on a class, truthiness,
  and exceptions as values of a sum type.
\<close>

subsection \<open>Values, exceptions and callables\<close>

text \<open>
  A \<open>str\<close> is a \<open>string\<close>; each \<open>char\<close> stands for the code point of the same number,
  so the strings of the model are those over U+0000 .. U+00FF. A \<open>UUID\<close> is its 128-bit
  number. Python integers are unbounded.
\<close>

datatype pyval =
    PNone
  | PBool bool
  | PInt int
  | PStr string
  | PUUID "128 word"

datatype pyerror = TypeError | ValueError | AttributeError | NotImplementedError

type_synonym 'a outcome = "pyerror + 'a"

text \<open>
  What a name can be bound to, in a class body, in an instance dictionary or as a
  constructor argument: a plain value, a builtin type called with one argument (\<open>str\<close>,
  \<open>int\<close>), or a function of exactly one positional parameter (a \<open>def\<close> or a \<open>lambda\<close>).
  The callables are pure functions of their argument.
\<close>

datatype pyobj =
    Value pyval
  | Type "pyval \<Rightarrow> pyval outcome"
  | Function "pyval \<Rightarrow> pyval outcome"

text \<open>An entry of a class body is such an object, or one wrapped in \<open>staticmethod(...)\<close>.\<close>

datatype classattr =
    Attr pyobj
  | Staticmethod "pyval \<Rightarrow> pyval outcome"

text \<open>
  The result of \<open>self.name\<close>: the object as it is, or a method bound to \<open>self\<close>. A plain
  function found in a class dictionary is a non-data descriptor, so reading it through an
  instance binds it; a builtin type and a plain value are returned as they are; a
  \<open>staticmethod\<close> returns the wrapped function unbound; whatever is found in the instance
  dictionary is returned as it is.
\<close>

datatype loaded =
    Plain pyobj
  | BoundMethod "pyval \<Rightarrow> pyval outcome"

text \<open>Truthiness, as \<open>if x:\<close> tests it.\<close>

fun truthy_val :: "pyval \<Rightarrow> bool" where
  "truthy_val PNone = False"
| "truthy_val (PBool b) = b"
| "truthy_val (PInt i) = (i \<noteq> 0)"
| "truthy_val (PStr s) = (s \<noteq> [])"
| "truthy_val (PUUID u) = True"

fun truthy :: "pyobj \<Rightarrow> bool" where
  "truthy (Value v) = truthy_val v"
| "truthy (Type t) = True"
| "truthy (Function f) = True"

text \<open>
  A call with one positional argument. A bound method of a one-parameter function passes
  two arguments, \<open>self\<close> and the argument, and Python raises
  \<open>TypeError: f() takes 1 positional argument but 2 were given\<close> before the body runs.
  A value that is not callable raises \<open>TypeError\<close> as well.
\<close>

fun call1 :: "loaded \<Rightarrow> pyval \<Rightarrow> pyval outcome" where
  "call1 (Plain (Value v)) x = Inl TypeError"
| "call1 (Plain (Type t)) x = t x"
| "call1 (Plain (Function f)) x = f x"
| "call1 (BoundMethod f) x = Inl TypeError"

subsection \<open>The builtins \<open>str\<close>, \<open>int\<close> and \<open>str.isdigit\<close>\<close>

definition digit_char :: "nat \<Rightarrow> char" where
  "digit_char d = char_of (48 + d)"

function string_of_nat :: "nat \<Rightarrow> string" where
  "string_of_nat n =
     (if n < 10 then [digit_char n]
      else string_of_nat (n div 10) @ [digit_char (n mod 10)])"
  by pat_completeness auto
termination
  by (relation "measure (\<lambda>n. n)") auto

declare string_of_nat.simps [simp del]

definition string_of_int :: "int \<Rightarrow> string" where
  "string_of_int i =
     (if i < 0 then CHR ''-'' # string_of_nat (nat (- i)) else string_of_nat (nat i))"

definition hex_char :: "nat \<Rightarrow> char" where
  "hex_char d = (if d < 10 then char_of (48 + d) else char_of (87 + d))"

definition hex_digits :: "128 word \<Rightarrow> string" where
  "hex_digits u = map (\<lambda>i. hex_char ((unat u div 16 ^ (31 - i)) mod 16)) [0..<32]"

definition string_of_uuid :: "128 word \<Rightarrow> string" where
  "string_of_uuid u =
     (let h = hex_digits u
      in take 8 h @ ''-'' @ take 4 (drop 8 h) @ ''-'' @ take 4 (drop 12 h) @ ''-''
         @ take 4 (drop 16 h) @ ''-'' @ drop 20 h)"

text \<open>\<open>str(x)\<close>: never raises on these values.\<close>

fun py_str :: "pyval \<Rightarrow> pyval outcome" where
  "py_str PNone = Inr (PStr ''None'')"
| "py_str (PBool b) = Inr (PStr (if b then ''True'' else ''False''))"
| "py_str (PInt i) = Inr (PStr (string_of_int i))"
| "py_str (PStr s) = Inr (PStr s)"
| "py_str (PUUID u) = Inr (PStr (string_of_uuid u))"

text \<open>
  \<open>int(s)\<close> on a string: whitespace on both sides is skipped, one sign is accepted, then
  come decimal digits, where single underscores may separate digits. Anything else is a
  \<open>ValueError\<close>. Within U+0000 .. U+00FF the characters skipped as whitespace are
  U+0009 .. U+000D, U+0020, U+0085 and U+00A0 (the separators U+001C .. U+001F are not
  skipped), and the decimal digits are \<open>0\<close> .. \<open>9\<close>.
  The conversion is the arbitrary-precision one (no limit on the number of digits).
\<close>

definition is_space :: "char \<Rightarrow> bool" where
  "is_space c =
     (let n = (of_char c :: nat)
      in (9 \<le> n \<and> n \<le> 13) \<or> n = 32 \<or> n = 133 \<or> n = 160)"

definition is_decimal :: "char \<Rightarrow> bool" where
  "is_decimal c = (48 \<le> (of_char c :: nat) \<and> (of_char c :: nat) \<le> 57)"

definition decimal_value :: "char \<Rightarrow> int" where
  "decimal_value c = int (of_char c) - 48"

text \<open>
  The digit loop: \<open>u\<close> tells whether the previous character was an underscore,
  \<open>acc\<close> is the number read so far. It stops at the first character that is neither a
  digit nor an underscore and returns the rest.
\<close>

fun parse_digits :: "bool \<Rightarrow> int \<Rightarrow> string \<Rightarrow> (int \<times> string) option" where
  "parse_digits u acc [] = (if u then None else Some (acc, []))"
| "parse_digits u acc (c # cs) =
     (if is_decimal c then parse_digits False (acc * 10 + decimal_value c) cs
      else if c = CHR ''_'' then (if u then None else parse_digits True acc cs)
      else if u then None else Some (acc, c # cs))"

fun split_sign :: "string \<Rightarrow> bool \<times> string" where
  "split_sign [] = (False, [])"
| "split_sign (c # cs) =
     (if c = CHR ''+'' then (False, cs)
      else if c = CHR ''-'' then (True, cs)
      else (False, c # cs))"

definition int_of_string :: "string \<Rightarrow> int option" where
  "int_of_string s =
     (case split_sign (dropWhile is_space s) of
        (neg, body) \<Rightarrow>
          (case body of
             [] \<Rightarrow> None
           | c # cs \<Rightarrow>
               if is_decimal c then
                 (case parse_digits False 0 body of
                    None \<Rightarrow> None
                  | Some (v, rest) \<Rightarrow>
                      if list_all is_space rest then Some (if neg then - v else v)
                      else None)
               else None))"

text \<open>\<open>int(x)\<close>: \<open>int(None)\<close> is a \<open>TypeError\<close>; a \<open>UUID\<close> converts through \<open>__int__\<close>.\<close>

fun py_int :: "pyval \<Rightarrow> pyval outcome" where
  "py_int PNone = Inl TypeError"
| "py_int (PBool b) = Inr (PInt (if b then 1 else 0))"
| "py_int (PInt i) = Inr (PInt i)"
| "py_int (PStr s) = (case int_of_string s of None \<Rightarrow> Inl ValueError | Some i \<Rightarrow> Inr (PInt i))"
| "py_int (PUUID u) = Inr (PInt (uint u))"

text \<open>
  \<open>s.isdigit()\<close>: false on the empty string, otherwise true when every character is a
  digit. Within U+0000 .. U+00FF the digit characters are \<open>0\<close> .. \<open>9\<close> and the
  superscripts U+00B2, U+00B3 and U+00B9.
\<close>

definition is_digit_char :: "char \<Rightarrow> bool" where
  "is_digit_char c =
     (let n = (of_char c :: nat)
      in (48 \<le> n \<and> n \<le> 57) \<or> n = 178 \<or> n = 179 \<or> n = 185)"

fun isdigit_loop :: "string \<Rightarrow> bool" where
  "isdigit_loop [] = True"
| "isdigit_loop (c # cs) = (if \<not> is_digit_char c then False else isdigit_loop cs)"

definition str_isdigit :: "string \<Rightarrow> bool" where
  "str_isdigit s = (if s = [] then False else isdigit_loop s)"

text \<open>\<open>value.isdigit()\<close>: only a \<open>str\<close> has the method.\<close>

fun method_isdigit :: "pyval \<Rightarrow> pyval outcome" where
  "method_isdigit (PStr s) = Inr (PBool (str_isdigit s))"
| "method_isdigit v = Inl AttributeError"

subsection \<open>The module \<open>pyramid_web20.utils.slug\<close>\<close>

definition b64_char :: "nat \<Rightarrow> char" where
  "b64_char d =
     (if d < 26 then char_of (65 + d)
      else if d < 52 then char_of (71 + d)
      else if d < 62 then char_of (d - 4)
      else if d = 62 then CHR ''-''
      else CHR ''_'')"

definition b64_value :: "char \<Rightarrow> nat option" where
  "b64_value c =
     (let n = (of_char c :: nat)
      in if 65 \<le> n \<and> n \<le> 90 then Some (n - 65)
         else if 97 \<le> n \<and> n \<le> 122 then Some (n - 71)
         else if 48 \<le> n \<and> n \<le> 57 then Some (n + 4)
         else if c = CHR ''-'' then Some 62
         else if c = CHR ''_'' then Some 63
         else None)"

primrec to_sextets :: "nat \<Rightarrow> nat \<Rightarrow> nat list" where
  "to_sextets 0 n = []"
| "to_sextets (Suc k) n = to_sextets k (n div 64) @ [n mod 64]"

definition from_sextets :: "nat list \<Rightarrow> nat" where
  "from_sextets ds = foldl (\<lambda>a d. a * 64 + d) 0 ds"

fun all_values :: "string \<Rightarrow> nat list option" where
  "all_values [] = Some []"
| "all_values (c # cs) =
     (case b64_value c of
        None \<Rightarrow> None
      | Some d \<Rightarrow> (case all_values cs of None \<Rightarrow> None | Some ds \<Rightarrow> Some (d # ds)))"

text \<open>
  Modelled from the spec: the module \<open>pyramid_web20/utils/slug.py\<close> is not among the
  sources. The spec calls its two functions the base64-slug transforms of the
  opaque-token variant: one serializes a UUID into a compact URL-safe token, the other
  parses such a token back and fails on malformed input. The model is the URL-safe
  base64 of the UUID's 16 bytes without padding: 22 characters, the last one carrying
  two bits of the UUID and four zero bits. Each function takes one positional
  parameter.
\<close>

fun uuid_to_slug :: "pyval \<Rightarrow> pyval outcome" where
  "uuid_to_slug (PUUID u) = Inr (PStr (map b64_char (to_sextets 22 (unat u * 16))))"
| "uuid_to_slug v = Inl TypeError"

fun slug_to_uuid :: "pyval \<Rightarrow> pyval outcome" where
  "slug_to_uuid (PStr s) =
     (if length s = 22 then
        (case all_values s of
           None \<Rightarrow> Inl ValueError
         | Some ds \<Rightarrow> Inr (PUUID (of_nat (from_sextets ds div 16))))
      else Inl ValueError)"
| "slug_to_uuid v = Inl TypeError"

subsection \<open>Classes and instances\<close>

datatype mapper_class = IdMapper | Base64UUIDMapper

text \<open>The class bodies, in the order of the source.\<close>

definition IdMapper_dict :: "(string \<times> classattr) list" where
  "IdMapper_dict =
     [(''mapping_attribute'', Attr (Value (PStr ''id''))),
      (''transform_to_path'', Attr (Type py_str)),
      (''transform_to_id'', Attr (Type py_int)),
      (''is_id'', Staticmethod (\<lambda>value. method_isdigit value))]"

definition Base64UUIDMapper_dict :: "(string \<times> classattr) list" where
  "Base64UUIDMapper_dict =
     [(''mapping_attribute'', Attr (Value (PStr ''uuid''))),
      (''transform_to_id'', Attr (Function uuid_to_slug)),
      (''transform_to_path'', Attr (Function slug_to_uuid)),
      (''is_id'', Attr (Function (\<lambda>x. Inr (PBool True))))]"

fun class_dict :: "mapper_class \<Rightarrow> (string \<times> classattr) list" where
  "class_dict IdMapper = IdMapper_dict"
| "class_dict Base64UUIDMapper = Base64UUIDMapper_dict"

text \<open>
  The method resolution order below \<open>Mapper\<close> and \<open>object\<close>, which define none of the four
  attributes.
\<close>

fun mro :: "mapper_class \<Rightarrow> mapper_class list" where
  "mro IdMapper = [IdMapper]"
| "mro Base64UUIDMapper = [Base64UUIDMapper, IdMapper]"

fun class_lookup :: "mapper_class list \<Rightarrow> string \<Rightarrow> classattr option" where
  "class_lookup [] name = None"
| "class_lookup (c # cs) name =
     (case map_of (class_dict c) name of
        Some a \<Rightarrow> Some a
      | None \<Rightarrow> class_lookup cs name)"

text \<open>An instance: its class and its instance dictionary (latest binding first).\<close>

record mapper =
  cls :: mapper_class
  inst_dict :: "(string \<times> pyobj) list"

definition setattr :: "mapper \<Rightarrow> string \<Rightarrow> pyobj \<Rightarrow> mapper" where
  "setattr self name v = self\<lparr>inst_dict := (name, v) # inst_dict self\<rparr>"

text \<open>How an entry found on the class is handed out through an instance.\<close>

fun bind :: "classattr \<Rightarrow> loaded" where
  "bind (Attr (Function f)) = BoundMethod f"
| "bind (Attr v) = Plain v"
| "bind (Staticmethod f) = Plain (Function f)"

text \<open>
  \<open>self.name\<close>: none of the four attributes is a data descriptor, so the instance
  dictionary comes first, then the classes. A name found nowhere is an
  \<open>AttributeError\<close>.
\<close>

definition load_attr :: "mapper \<Rightarrow> string \<Rightarrow> loaded outcome" where
  "load_attr self name =
     (case map_of (inst_dict self) name of
        Some v \<Rightarrow> Inr (Plain v)
      | None \<Rightarrow>
          (case class_lookup (mro (cls self)) name of
             Some a \<Rightarrow> Inr (bind a)
           | None \<Rightarrow> Inl AttributeError))"

text \<open>
  \<open>IdMapper.__init__\<close>, inherited by \<open>Base64UUIDMapper\<close>. An argument that is not given is
  \<open>None\<close>.
\<close>

definition init :: "mapper_class \<Rightarrow> pyobj \<Rightarrow> pyobj \<Rightarrow> pyobj \<Rightarrow> pyobj \<Rightarrow> mapper" where
  "init c mapping_attribute transform_to_path transform_to_id is_id =
     (let self = \<lparr>cls = c, inst_dict = []\<rparr>;
          self = (if truthy mapping_attribute
                  then setattr self ''mapping_attribute'' mapping_attribute else self);
          self = (if truthy transform_to_path
                  then setattr self ''transform_to_path'' transform_to_path else self);
          self = (if truthy transform_to_id
                  then setattr self ''transform_to_id'' transform_to_id else self);
          self = (if truthy is_id
                  then setattr self ''is_id'' is_id else self)
      in self)"

abbreviation not_given :: pyobj where
  "not_given \<equiv> Value PNone"

text \<open>\<open>IdMapper()\<close> and \<open>Base64UUIDMapper()\<close>: construction without arguments.\<close>

definition new :: "mapper_class \<Rightarrow> mapper" where
  "new c = init c not_given not_given not_given not_given"

text \<open>The four configuration fields as an instance presents them.\<close>

definition configuration ::
  "mapper \<Rightarrow> loaded outcome \<times> loaded outcome \<times> loaded outcome \<times> loaded outcome" where
  "configuration self =
     (load_attr self ''mapping_attribute'', load_attr self ''transform_to_path'',
      load_attr self ''transform_to_id'', load_attr self ''is_id'')"

text \<open>A domain object: its attributes.\<close>

type_synonym domain_obj = "(string \<times> pyval) list"

text \<open>\<open>getattr(obj, name)\<close>: the name must be a \<open>str\<close>.\<close>

fun getattr :: "domain_obj \<Rightarrow> loaded \<Rightarrow> pyval outcome" where
  "getattr obj (Plain (Value (PStr name))) =
     (case map_of obj name of None \<Rightarrow> Inl AttributeError | Some v \<Rightarrow> Inr v)"
| "getattr obj other = Inl TypeError"

text \<open>
  The operations thread the instance: each returns its result together with the
  instance as it is after the call. Python evaluates the callee \<open>self.transform_to_path\<close>
  first, then the argument, then makes the call.
\<close>

definition get_path_from_object :: "mapper \<Rightarrow> domain_obj \<Rightarrow> pyval outcome \<times> mapper" where
  "get_path_from_object self obj =
     (case load_attr self ''transform_to_path'' of
        Inl e \<Rightarrow> (Inl e, self)
      | Inr f \<Rightarrow>
          (case load_attr self ''mapping_attribute'' of
             Inl e \<Rightarrow> (Inl e, self)
           | Inr a \<Rightarrow>
               (case getattr obj a of
                  Inl e \<Rightarrow> (Inl e, self)
                | Inr v \<Rightarrow> (call1 f v, self))))"

definition get_id_from_path :: "mapper \<Rightarrow> pyval \<Rightarrow> pyval outcome \<times> mapper" where
  "get_id_from_path self path =
     (case load_attr self ''transform_to_id'' of
        Inl e \<Rightarrow> (Inl e, self)
      | Inr f \<Rightarrow> (call1 f path, self))"

text \<open>The caller's \<open>mapper.is_id(path)\<close>.\<close>

definition is_id :: "mapper \<Rightarrow> pyval \<Rightarrow> pyval outcome \<times> mapper" where
  "is_id self path =
     (case load_attr self ''is_id'' of
        Inl e \<Rightarrow> (Inl e, self)
      | Inr f \<Rightarrow> (call1 f path, self))"

text \<open>The abstract base class \<open>Mapper\<close>: both methods raise.\<close>

definition Mapper_get_path_from_object :: "domain_obj \<Rightarrow> pyval outcome" where
  "Mapper_get_path_from_object obj = Inl NotImplementedError"

definition Mapper_get_id_from_path :: "pyval \<Rightarrow> pyval outcome" where
  "Mapper_get_id_from_path path = Inl NotImplementedError"

section \<open>Auxiliary facts\<close>

subsection \<open>\<open>str\<close> and \<open>int\<close> on integers\<close>

lemma isdigit_loop_iff: "isdigit_loop s = (\<forall>c \<in> set s. is_digit_char c)"
  by (induction s) auto

lemma is_digit_char_ascii: "(of_char c :: nat) < 128 \<Longrightarrow> is_digit_char c = is_decimal c"
  by (auto simp: is_digit_char_def is_decimal_def Let_def)

lemma str_isdigit_iff: "str_isdigit s = (s \<noteq> [] \<and> (\<forall>c \<in> set s. is_digit_char c))"
  by (simp add: str_isdigit_def isdigit_loop_iff)

lemma of_char_digit_char: "d < 10 \<Longrightarrow> (of_char (digit_char d) :: nat) = 48 + d"
  by (simp add: digit_char_def)

lemma is_decimal_digit_char: "d < 10 \<Longrightarrow> is_decimal (digit_char d)"
  by (simp add: is_decimal_def of_char_digit_char)

lemma decimal_value_digit_char: "d < 10 \<Longrightarrow> decimal_value (digit_char d) = int d"
  by (simp add: decimal_value_def of_char_digit_char)

lemma not_space_digit_char: "d < 10 \<Longrightarrow> \<not> is_space (digit_char d)"
  by (simp add: is_space_def of_char_digit_char)

lemma parse_digits_string_of_nat:
  "parse_digits u acc (string_of_nat n @ r) =
     parse_digits False (acc * 10 ^ length (string_of_nat n) + int n) r"
proof (induction n arbitrary: u acc r rule: string_of_nat.induct)
  case (1 n)
  show ?case
  proof (cases "n < 10")
    case True
    then have "string_of_nat n = [digit_char n]"
      by (subst string_of_nat.simps) simp
    with True show ?thesis
      by (simp add: is_decimal_digit_char decimal_value_digit_char)
  next
    case False
    have step: "string_of_nat n = string_of_nat (n div 10) @ [digit_char (n mod 10)]"
      using False by (subst string_of_nat.simps) simp
    have m: "n mod 10 < 10" by simp
    have "parse_digits u acc (string_of_nat n @ r) =
          parse_digits u acc (string_of_nat (n div 10) @ (digit_char (n mod 10) # r))"
      by (simp add: step)
    also have "\<dots> = parse_digits False (acc * 10 ^ length (string_of_nat (n div 10)) + int (n div 10))
                 (digit_char (n mod 10) # r)"
      using "1.IH" [OF False] by simp
    also have "\<dots> = parse_digits False
         ((acc * 10 ^ length (string_of_nat (n div 10)) + int (n div 10)) * 10 + int (n mod 10)) r"
      by (simp add: is_decimal_digit_char [OF m] decimal_value_digit_char [OF m])
    also have "(acc * 10 ^ length (string_of_nat (n div 10)) + int (n div 10)) * 10 + int (n mod 10)
          = acc * 10 ^ length (string_of_nat n) + int n"
    proof -
      have "int (n div 10) * 10 + int (n mod 10) = int n"
        by (simp add: zdiv_int zmod_int)
      then show ?thesis by (simp add: step algebra_simps)
    qed
    finally show ?thesis .
  qed
qed

lemma string_of_nat_hd:
  "\<exists>d cs. d < 10 \<and> string_of_nat n = digit_char d # cs"
proof (induction n rule: string_of_nat.induct)
  case (1 n)
  show ?case
  proof (cases "n < 10")
    case True
    then have "string_of_nat n = [digit_char n]"
      by (subst string_of_nat.simps) simp
    with True show ?thesis by blast
  next
    case False
    then obtain d cs where "d < 10" "string_of_nat (n div 10) = digit_char d # cs"
      using "1.IH" by blast
    then show ?thesis
      using False by (subst string_of_nat.simps) auto
  qed
qed

lemma int_of_string_of_nat: "int_of_string (string_of_nat n) = Some (int n)"
proof -
  obtain d cs where d: "d < 10" and s: "string_of_nat n = digit_char d # cs"
    using string_of_nat_hd by blast
  have plus: "digit_char d \<noteq> CHR ''+''" and minus: "digit_char d \<noteq> CHR ''-''"
    using is_decimal_digit_char [OF d] by (auto simp: is_decimal_def)
  have drop: "dropWhile is_space (string_of_nat n) = string_of_nat n"
    by (simp add: s not_space_digit_char [OF d])
  have sign: "split_sign (string_of_nat n) = (False, string_of_nat n)"
    by (simp add: s plus minus)
  have p: "parse_digits False 0 (string_of_nat n) = Some (int n, [])"
    using parse_digits_string_of_nat [of False 0 n "[]"] by simp
  show ?thesis
    unfolding int_of_string_def drop sign
    using p by (simp add: s is_decimal_digit_char [OF d])
qed

lemma int_of_string_of_neg:
  "int_of_string (CHR ''-'' # string_of_nat n) = Some (- int n)"
proof -
  obtain d cs where d: "d < 10" and s: "string_of_nat n = digit_char d # cs"
    using string_of_nat_hd by blast
  have sp: "\<not> is_space CHR ''-''" by (simp add: is_space_def)
  have p: "parse_digits False 0 (string_of_nat n) = Some (int n, [])"
    using parse_digits_string_of_nat [of False 0 n "[]"] by simp
  show ?thesis
    unfolding int_of_string_def
    using p by (simp add: sp s is_decimal_digit_char [OF d])
qed

lemma int_of_string_of_int: "int_of_string (string_of_int i) = Some i"
  by (simp add: string_of_int_def int_of_string_of_nat int_of_string_of_neg)

subsection \<open>The slug functions\<close>

lemma from_sextets_snoc: "from_sextets (ds @ [d]) = from_sextets ds * 64 + d"
  by (simp add: from_sextets_def)

lemma from_to_sextets: "from_sextets (to_sextets k n) = n mod 64 ^ k"
proof (induction k arbitrary: n)
  case 0
  show ?case by (simp add: from_sextets_def)
next
  case (Suc k)
  have "n mod (64 * 64 ^ k) = 64 * (n div 64 mod 64 ^ k) + n mod 64"
    by (rule mod_mult2_eq)
  then show ?case
    by (simp add: from_sextets_snoc Suc.IH)
qed

lemma length_to_sextets: "length (to_sextets k n) = k"
  by (induction k arbitrary: n) simp_all

lemma to_sextets_less: "d \<in> set (to_sextets k n) \<Longrightarrow> d < 64"
  by (induction k arbitrary: n) auto

lemma b64_value_char: "d < 64 \<Longrightarrow> b64_value (b64_char d) = Some d"
  by (auto simp: b64_value_def b64_char_def Let_def)

lemma all_values_chars: "(\<forall>d \<in> set ds. d < 64) \<Longrightarrow> all_values (map b64_char ds) = Some ds"
  by (induction ds) (simp_all add: b64_value_char)

lemma slug_round_trip:
  "\<exists>s. uuid_to_slug (PUUID u) = Inr (PStr s) \<and> slug_to_uuid (PStr s) = Inr (PUUID u)"
proof -
  let ?n = "unat u * 16"
  let ?ds = "to_sextets 22 ?n"
  have bound: "?n < 64 ^ 22"
  proof -
    have "unat u < 2 ^ 128" using unsigned_less [of u] by simp
    then show ?thesis by simp
  qed
  have vals: "all_values (map b64_char ?ds) = Some ?ds"
    by (rule all_values_chars) (auto dest: to_sextets_less)
  have "from_sextets ?ds = ?n"
    using bound by (simp add: from_to_sextets)
  then have dec: "from_sextets ?ds div 16 = unat u" by simp
  have "slug_to_uuid (PStr (map b64_char ?ds)) = Inr (PUUID u)"
    by (simp add: length_to_sextets vals dec del: to_sextets.simps)
  then show ?thesis by simp
qed

subsection \<open>Attribute lookup on instances\<close>

lemma new_eq: "new c = \<lparr>cls = c, inst_dict = []\<rparr>"
  by (simp add: new_def init_def)

lemma load_IdMapper:
  "load_attr (new IdMapper) ''mapping_attribute'' = Inr (Plain (Value (PStr ''id'')))"
  "load_attr (new IdMapper) ''transform_to_path'' = Inr (Plain (Type py_str))"
  "load_attr (new IdMapper) ''transform_to_id'' = Inr (Plain (Type py_int))"
  "load_attr (new IdMapper) ''is_id'' = Inr (Plain (Function method_isdigit))"
  by (simp_all add: new_eq load_attr_def IdMapper_dict_def)

lemma load_Base64UUIDMapper:
  "load_attr (new Base64UUIDMapper) ''mapping_attribute'' = Inr (Plain (Value (PStr ''uuid'')))"
  "load_attr (new Base64UUIDMapper) ''transform_to_path'' = Inr (BoundMethod slug_to_uuid)"
  "load_attr (new Base64UUIDMapper) ''transform_to_id'' = Inr (BoundMethod uuid_to_slug)"
  "load_attr (new Base64UUIDMapper) ''is_id'' = Inr (BoundMethod (\<lambda>x. Inr (PBool True)))"
  by (simp_all add: new_eq load_attr_def Base64UUIDMapper_dict_def)

lemma IdMapper_get_path:
  "fst (get_path_from_object (new IdMapper) obj) =
     (case map_of obj ''id'' of None \<Rightarrow> Inl AttributeError | Some v \<Rightarrow> py_str v)"
  by (simp add: get_path_from_object_def load_IdMapper split: option.splits)

lemma IdMapper_get_id: "fst (get_id_from_path (new IdMapper) p) = py_int p"
  by (simp add: get_id_from_path_def load_IdMapper)

lemma IdMapper_is_id: "fst (is_id (new IdMapper) p) = method_isdigit p"
  by (simp add: is_id_def load_IdMapper)

lemma Base64_get_path:
  "fst (get_path_from_object (new Base64UUIDMapper) obj) =
     (case map_of obj ''uuid'' of None \<Rightarrow> Inl AttributeError | Some v \<Rightarrow> Inl TypeError)"
  by (simp add: get_path_from_object_def load_Base64UUIDMapper split: option.splits)

lemma Base64_get_id: "fst (get_id_from_path (new Base64UUIDMapper) p) = Inl TypeError"
  by (simp add: get_id_from_path_def load_Base64UUIDMapper)

lemma Base64_is_id: "fst (is_id (new Base64UUIDMapper) p) = Inl TypeError"
  by (simp add: is_id_def load_Base64UUIDMapper)

lemma py_str_no_error: "\<exists>s. py_str v = Inr (PStr s)"
  by (cases v) simp_all

lemma snd_get_path: "snd (get_path_from_object m obj) = m"
  by (simp add: get_path_from_object_def split: sum.splits)

lemma snd_get_id: "snd (get_id_from_path m p) = m"
  by (simp add: get_id_from_path_def split: sum.splits)

lemma snd_is_id: "snd (is_id m p) = m"
  by (simp add: is_id_def split: sum.splits)

lemma load_init:
  "load_attr (init c ma tp ti ii) ''mapping_attribute'' =
     (if truthy ma then Inr (Plain ma) else load_attr (new c) ''mapping_attribute'')"
  "load_attr (init c ma tp ti ii) ''transform_to_path'' =
     (if truthy tp then Inr (Plain tp) else load_attr (new c) ''transform_to_path'')"
  "load_attr (init c ma tp ti ii) ''transform_to_id'' =
     (if truthy ti then Inr (Plain ti) else load_attr (new c) ''transform_to_id'')"
  "load_attr (init c ma tp ti ii) ''is_id'' =
     (if truthy ii then Inr (Plain ii) else load_attr (new c) ''is_id'')"
  by (simp_all add: init_def new_eq setattr_def load_attr_def Let_def)

lemma dict_init:
  "map_of (inst_dict (init c ma tp ti ii)) ''mapping_attribute'' =
     (if truthy ma then Some ma else None)"
  "map_of (inst_dict (init c ma tp ti ii)) ''transform_to_path'' =
     (if truthy tp then Some tp else None)"
  "map_of (inst_dict (init c ma tp ti ii)) ''transform_to_id'' =
     (if truthy ti then Some ti else None)"
  "map_of (inst_dict (init c ma tp ti ii)) ''is_id'' =
     (if truthy ii then Some ii else None)"
  by (simp_all add: init_def setattr_def Let_def)

lemma char_of_eq_iff: "char_of (n::nat) = c \<longleftrightarrow> n mod 256 = of_char c"
proof -
  have "char_of n = c \<longleftrightarrow> char_of n = char_of (of_char c :: nat)" by simp
  also have "\<dots> \<longleftrightarrow> n mod 256 = of_char c" by (simp only: char_of_quasi_inj of_char_mod_256)
  finally show ?thesis .
qed

lemma string_of_int_42: "string_of_int 42 = ''42''"
  by (simp add: string_of_int_def string_of_nat.simps digit_char_def char_of_eq_iff)

lemma int_of_string_separator_rejected:
  "int_of_string [char_of (28::nat), CHR ''1''] = None"
  "int_of_string [CHR ''1'', char_of (31::nat)] = None"
  "int_of_string [char_of (160::nat), CHR ''1'', char_of (133::nat)] = Some 1"
  by (simp_all add: int_of_string_def is_space_def is_decimal_def decimal_value_def
      char_of_eq_iff)

lemma idmapper_get_id_from_path_parses:
  "fst (get_id_from_path (new IdMapper) (PStr s)) =
     (case int_of_string s of None \<Rightarrow> Inl ValueError | Some i \<Rightarrow> Inr (PInt i))"
  "fst (get_id_from_path (new IdMapper) (PStr ''abc'')) = Inl ValueError"
  by (simp_all add: IdMapper_get_id int_of_string_def is_space_def is_decimal_def)

lemma get_path_delegates:
  assumes "load_attr m ''mapping_attribute'' = Inr (Plain (Value (PStr a)))"
    and "load_attr m ''transform_to_path'' = Inr f"
  shows "fst (get_path_from_object m obj) =
           (case map_of obj a of None \<Rightarrow> Inl AttributeError | Some v \<Rightarrow> call1 f v)"
  using assms by (simp add: get_path_from_object_def split: option.splits)

lemma IdMapper_get_path_AttributeError:
  "(fst (get_path_from_object (new IdMapper) obj) = Inl AttributeError) = (map_of obj ''id'' = None)"
proof -
  have "py_str v \<noteq> Inl AttributeError" for v by (cases v) simp_all
  then show ?thesis by (simp add: IdMapper_get_path split: option.splits)
qed

lemma to_sextets_zero: "to_sextets k 0 = replicate k 0"
  by (induction k) (simp_all add: replicate_append_same)

lemma b64_char_zero: "b64_char 0 = CHR ''A''"
  by (simp add: b64_char_def char_of_eq_iff)

lemma slug_of_zero: "uuid_to_slug (PUUID 0) = Inr (PStr (replicate 22 CHR ''A''))"
  by (simp add: to_sextets_zero b64_char_zero del: replicate.simps)

lemma replicate_22: "replicate 22 CHR ''A'' = ''AAAAAAAAAAAAAAAAAAAAAA''"
  by (simp add: numeral_eq_Suc)

section \<open>The claims\<close>

subsection \<open>Round trips\<close>

text \<open>
  C1. The claim: on \<open>Base64UUIDMapper\<close>, \<open>transform_to_path\<close> serializes the UUID into a
  slug, \<open>transform_to_id\<close> parses it back, and
  \<open>get_id_from_path(get_path_from_object(obj)) == obj.uuid\<close>.

  The class body binds the two names the other way round (\<open>transform_to_id\<close> is
  \<open>slug.uuid_to_slug\<close>, \<open>transform_to_path\<close> is \<open>slug.slug_to_uuid\<close>) and binds them as plain
  functions, so that \<open>self.transform_to_path(...)\<close> is a bound method call with two
  arguments. For every UUID \<open>u\<close>, \<open>get_path_from_object\<close> on an object whose \<open>uuid\<close> is
  \<open>u\<close> raises \<open>TypeError\<close>; and the function it reaches for, \<open>slug_to_uuid\<close>, rejects a
  UUID argument even when called unbound. No path is produced, so there is no round trip.
  (The two slug functions themselves do round-trip: \<open>slug_round_trip\<close>.)
\<close>

theorem base64_get_path_from_object_raises:
  "fst (get_path_from_object (new Base64UUIDMapper) [(''uuid'', PUUID u)]) = Inl TypeError
   \<and> slug_to_uuid (PUUID u) = Inl TypeError"
  by (simp add: Base64_get_path)

text \<open>
  C2. On the default \<open>IdMapper\<close>, for every object whose \<open>id\<close> is a non-negative integer
  \<open>n\<close>, \<open>get_path_from_object\<close> returns the decimal string of \<open>n\<close> and
  \<open>get_id_from_path\<close> of that string returns \<open>n\<close>.
\<close>

theorem idmapper_round_trip:
  assumes "map_of obj ''id'' = Some (PInt n)" and "0 \<le> n"
  shows "fst (get_path_from_object (new IdMapper) obj) = Inr (PStr (string_of_int n))
         \<and> fst (get_id_from_path (new IdMapper) (PStr (string_of_int n))) = Inr (PInt n)"
  using assms by (simp add: IdMapper_get_path IdMapper_get_id int_of_string_of_int)

theorem idmapper_round_trip_witness:
  "map_of [(''id'', PInt 42)] ''id'' = Some (PInt 42) \<and> (0::int) \<le> 42
   \<and> fst (get_path_from_object (new IdMapper) [(''id'', PInt 42)]) = Inr (PStr ''42'')
   \<and> fst (get_id_from_path (new IdMapper) (PStr ''42'')) = Inr (PInt 42)"
  using idmapper_round_trip [of "[(''id'', PInt 42)]" 42]
  by (simp add: string_of_int_42)

subsection \<open>The heuristic \<open>is_id\<close>\<close>

text \<open>
  C3. The claim: on both variants \<open>is_id\<close> never raises on a string when invoked on a
  mapper instance, and on \<open>Base64UUIDMapper\<close> it returns true for every string.

  On an \<open>IdMapper\<close> instance it is total: the lambda is wrapped in \<open>staticmethod\<close>. The
  body of \<open>Base64UUIDMapper\<close> binds \<open>is_id\<close> to a bare \<open>lambda x: True\<close>, which an
  instance hands out as a bound method; called with a string it receives two arguments
  and raises \<open>TypeError\<close>, for every string.
\<close>

theorem base64_is_id_raises:
  "fst (is_id (new Base64UUIDMapper) (PStr s)) = Inl TypeError
   \<and> fst (is_id (new IdMapper) (PStr s)) = Inr (PBool (str_isdigit s))"
  by (simp add: Base64_is_id IdMapper_is_id)

text \<open>
  C4. On the default \<open>IdMapper\<close>, \<open>is_id\<close> of a string returns true exactly when the
  string is not empty and every character of it is a digit character (in the sense of
  \<open>str.isdigit\<close>); it returns true on \<open>123\<close>, false on \<open>abc\<close>, and false, without raising,
  on the empty string.
\<close>

theorem idmapper_is_id_digits:
  "fst (is_id (new IdMapper) (PStr s)) = Inr (PBool (s \<noteq> [] \<and> (\<forall>c \<in> set s. is_digit_char c)))
   \<and> fst (is_id (new IdMapper) (PStr ''123'')) = Inr (PBool True)
   \<and> fst (is_id (new IdMapper) (PStr ''abc'')) = Inr (PBool False)
   \<and> fst (is_id (new IdMapper) (PStr '''')) = Inr (PBool False)"
  by (simp add: IdMapper_is_id str_isdigit_iff is_digit_char_def)

theorem idmapper_is_id_digits_witness:
  "fst (is_id (new IdMapper) (PStr ''2015'')) = Inr (PBool True)
   \<and> is_digit_char CHR ''2'' \<and> is_digit_char CHR ''0''
   \<and> is_digit_char CHR ''1'' \<and> is_digit_char CHR ''5''"
  using idmapper_is_id_digits [of "''2015''"]
  by (simp add: is_digit_char_def)

subsection \<open>Failure propagation\<close>

text \<open>
  C5. The claim: on every variant \<open>get_id_from_path\<close> returns the parsed identifier when
  the segment is a valid encoding and raises a parse error exactly when it is not.

  On \<open>IdMapper\<close> this is what happens (\<open>idmapper_get_id_from_path_parses\<close>). On
  \<open>Base64UUIDMapper\<close>, \<open>self.transform_to_id\<close> is \<open>slug.uuid_to_slug\<close> handed out as a bound
  method, so \<open>get_id_from_path\<close> raises \<open>TypeError\<close> on every argument, also on a valid
  slug such as the slug of the zero UUID, which \<open>slug_to_uuid\<close> decodes.
\<close>

theorem base64_get_id_from_path_raises:
  "fst (get_id_from_path (new Base64UUIDMapper) p) = Inl TypeError
   \<and> uuid_to_slug (PUUID 0) = Inr (PStr ''AAAAAAAAAAAAAAAAAAAAAA'')
   \<and> slug_to_uuid (PStr ''AAAAAAAAAAAAAAAAAAAAAA'') = Inr (PUUID 0)
   \<and> fst (get_id_from_path (new Base64UUIDMapper) (PStr ''AAAAAAAAAAAAAAAAAAAAAA''))
       = Inl TypeError"
  using slug_round_trip [of 0]
  by (simp add: Base64_get_id slug_of_zero replicate_22 del: uuid_to_slug.simps slug_to_uuid.simps)

text \<open>
  C6. The claim: on every variant \<open>get_path_from_object\<close> reads the attribute named by
  \<open>mapping_attribute\<close> off the object, returns \<open>transform_to_path\<close> applied to its value
  when the attribute is present, and raises \<open>AttributeError\<close> exactly when it is missing.

  On \<open>IdMapper\<close> this is what happens (\<open>IdMapper_get_path\<close>,
  \<open>IdMapper_get_path_AttributeError\<close>). On \<open>Base64UUIDMapper\<close> the operation returns a
  path for no object at all: when the \<open>uuid\<close> attribute is present, the call of
  \<open>self.transform_to_path\<close> is a bound method call with two arguments and raises
  \<open>TypeError\<close>. That is so when the value is a UUID, which the slug module does serialize
  (\<open>uuid_to_slug\<close>), and also when the value is a slug, on which the function bound to
  \<open>transform_to_path\<close> in the class body (\<open>slug_to_uuid\<close>) does return a result when it is
  applied to the value alone.
\<close>

theorem base64_get_path_from_object_never_returns:
  "fst (get_path_from_object (new Base64UUIDMapper) obj) \<noteq> Inr p
   \<and> uuid_to_slug (PUUID 0) = Inr (PStr ''AAAAAAAAAAAAAAAAAAAAAA'')
   \<and> fst (get_path_from_object (new Base64UUIDMapper) [(''uuid'', PUUID 0)]) = Inl TypeError
   \<and> slug_to_uuid (PStr ''AAAAAAAAAAAAAAAAAAAAAA'') = Inr (PUUID 0)
   \<and> fst (get_path_from_object (new Base64UUIDMapper)
            [(''uuid'', PStr ''AAAAAAAAAAAAAAAAAAAAAA'')]) = Inl TypeError"
proof -
  have "fst (get_path_from_object (new Base64UUIDMapper) obj) \<noteq> Inr p"
    by (simp add: Base64_get_path split: option.splits)
  moreover have "uuid_to_slug (PUUID 0) = Inr (PStr ''AAAAAAAAAAAAAAAAAAAAAA'')"
    by (simp only: slug_of_zero replicate_22)
  moreover have "slug_to_uuid (PStr ''AAAAAAAAAAAAAAAAAAAAAA'') = Inr (PUUID 0)"
    using slug_round_trip [of 0] by (simp only: slug_of_zero replicate_22) simp
  moreover have "fst (get_path_from_object (new Base64UUIDMapper) [(''uuid'', PUUID 0)])
      = Inl TypeError"
    by (simp add: Base64_get_path)
  moreover have "fst (get_path_from_object (new Base64UUIDMapper)
      [(''uuid'', PStr ''AAAAAAAAAAAAAAAAAAAAAA'')]) = Inl TypeError"
    by (simp add: Base64_get_path)
  ultimately show ?thesis by blast
qed

subsection \<open>Construction\<close>

text \<open>
  The constructor tests each argument with \<open>if argument:\<close>. An empty string passed as
  \<open>mapping_attribute\<close> is an override that was supplied, and it does not replace the
  class-level \<open>id\<close>.
\<close>

theorem init_empty_override_counterexample:
  "load_attr (init IdMapper (Value (PStr '''')) not_given not_given not_given) ''mapping_attribute''
     \<noteq> Inr (Plain (Value (PStr '''')))"
  by (simp add: load_init load_IdMapper)

text \<open>
  C7, amended. The constructor of each variant accepts an optional override for each of
  the four behaviors. An override that is truthy replaces the class-level default on the
  instance; for an argument that is not given, or is given but falsy, the class-level
  default stays in effect. In particular an \<open>IdMapper\<close> constructed with
  \<open>mapping_attribute="external_ref"\<close> makes \<open>get_path_from_object\<close> read the attribute
  \<open>external_ref\<close>.
\<close>

theorem init_override_truthy:
  "load_attr (init c ma tp ti ii) ''mapping_attribute'' =
     (if truthy ma then Inr (Plain ma) else load_attr (new c) ''mapping_attribute'')
   \<and> load_attr (init c ma tp ti ii) ''transform_to_path'' =
     (if truthy tp then Inr (Plain tp) else load_attr (new c) ''transform_to_path'')
   \<and> load_attr (init c ma tp ti ii) ''transform_to_id'' =
     (if truthy ti then Inr (Plain ti) else load_attr (new c) ''transform_to_id'')
   \<and> load_attr (init c ma tp ti ii) ''is_id'' =
     (if truthy ii then Inr (Plain ii) else load_attr (new c) ''is_id'')
   \<and> fst (get_path_from_object
            (init IdMapper (Value (PStr ''external_ref'')) not_given not_given not_given) obj) =
     (case map_of obj ''external_ref'' of None \<Rightarrow> Inl AttributeError | Some v \<Rightarrow> py_str v)"
proof -
  let ?m = "init IdMapper (Value (PStr ''external_ref'')) not_given not_given not_given"
  have a: "load_attr ?m ''mapping_attribute'' = Inr (Plain (Value (PStr ''external_ref'')))"
    by (simp add: load_init)
  have f: "load_attr ?m ''transform_to_path'' = Inr (Plain (Type py_str))"
    by (simp add: load_init load_IdMapper)
  have "fst (get_path_from_object ?m obj) =
     (case map_of obj ''external_ref'' of None \<Rightarrow> Inl AttributeError | Some v \<Rightarrow> py_str v)"
    using get_path_delegates [OF a f, of obj] by (simp split: option.splits)
  then show ?thesis by (simp add: load_init)
qed

theorem init_override_truthy_witness:
  "truthy (Value (PStr ''external_ref''))
   \<and> load_attr (init Base64UUIDMapper (Value (PStr ''external_ref'')) not_given (Type py_int) not_given)
        ''mapping_attribute'' = Inr (Plain (Value (PStr ''external_ref'')))
   \<and> load_attr (init Base64UUIDMapper (Value (PStr ''external_ref'')) not_given (Type py_int) not_given)
        ''transform_to_id'' = Inr (Plain (Type py_int))
   \<and> load_attr (init Base64UUIDMapper (Value (PStr ''external_ref'')) not_given (Type py_int) not_given)
        ''is_id'' = load_attr (new Base64UUIDMapper) ''is_id''
   \<and> fst (get_path_from_object
            (init IdMapper (Value (PStr ''external_ref'')) not_given not_given not_given)
            [(''id'', PInt 1), (''external_ref'', PStr ''abc'')]) = Inr (PStr ''abc'')"
  using init_override_truthy [of Base64UUIDMapper "Value (PStr ''external_ref'')" not_given
      "Type py_int" not_given "[(''id'', PInt 1), (''external_ref'', PStr ''abc'')]"]
  by simp

text \<open>
  C9. An override counts as supplied when it is truthy: a falsy value passed for any of
  the four arguments (the empty string, \<open>None\<close>) is not stored on the instance, and the
  attribute still resolves to the class-level default.
\<close>

theorem init_falsy_override_keeps_default:
  assumes "\<not> truthy v"
  shows "load_attr (init c v a2 a3 a4) ''mapping_attribute'' = load_attr (new c) ''mapping_attribute''
   \<and> map_of (inst_dict (init c v a2 a3 a4)) ''mapping_attribute'' = None
   \<and> load_attr (init c a1 v a3 a4) ''transform_to_path'' = load_attr (new c) ''transform_to_path''
   \<and> map_of (inst_dict (init c a1 v a3 a4)) ''transform_to_path'' = None
   \<and> load_attr (init c a1 a2 v a4) ''transform_to_id'' = load_attr (new c) ''transform_to_id''
   \<and> map_of (inst_dict (init c a1 a2 v a4)) ''transform_to_id'' = None
   \<and> load_attr (init c a1 a2 a3 v) ''is_id'' = load_attr (new c) ''is_id''
   \<and> map_of (inst_dict (init c a1 a2 a3 v)) ''is_id'' = None"
  using assms by (simp add: load_init dict_init)

theorem init_falsy_override_keeps_default_witness:
  "\<not> truthy (Value (PStr '''')) \<and> \<not> truthy (Value PNone)
   \<and> load_attr (init IdMapper (Value (PStr '''')) not_given not_given not_given) ''mapping_attribute''
       = Inr (Plain (Value (PStr ''id'')))
   \<and> load_attr (init Base64UUIDMapper not_given not_given not_given (Value (PStr ''''))) ''is_id''
       = Inr (BoundMethod (\<lambda>x. Inr (PBool True)))"
proof -
  have f: "\<not> truthy (Value (PStr ''''))" by simp
  show ?thesis
    using init_falsy_override_keeps_default [OF f, of IdMapper not_given not_given not_given]
      init_falsy_override_keeps_default [OF f, of Base64UUIDMapper not_given not_given not_given
        not_given]
    by (simp add: load_IdMapper load_Base64UUIDMapper)
qed

subsection \<open>Frame and determinism\<close>

text \<open>
  C8. Each of the three operations returns the instance it was given: the instance
  dictionary, and with it the four configuration fields as the instance presents them,
  are the same after the call as before. Each operation is a function of the instance
  and its argument, so equal inputs give equal results.
\<close>

theorem operations_frame:
  "snd (get_path_from_object m obj) = m
   \<and> snd (get_id_from_path m p) = m
   \<and> snd (is_id m p) = m
   \<and> configuration (snd (get_path_from_object m obj)) = configuration m
   \<and> configuration (snd (get_id_from_path m p)) = configuration m
   \<and> configuration (snd (is_id m p)) = configuration m
   \<and> (m' = m \<and> obj' = obj \<longrightarrow> get_path_from_object m' obj' = get_path_from_object m obj)
   \<and> (m' = m \<and> p' = p \<longrightarrow> get_id_from_path m' p' = get_id_from_path m p)
   \<and> (m' = m \<and> p' = p \<longrightarrow> is_id m' p' = is_id m p)"
  by (simp add: snd_get_path snd_get_id snd_is_id)

theorem operations_frame_witness:
  "snd (get_path_from_object (new IdMapper) [(''id'', PInt 3)]) = new IdMapper
   \<and> snd (get_id_from_path (new IdMapper) (PStr ''3'')) = new IdMapper
   \<and> snd (is_id (new IdMapper) (PStr ''3'')) = new IdMapper
   \<and> configuration (snd (get_id_from_path (new IdMapper) (PStr ''3''))) = configuration (new IdMapper)"
  using operations_frame [of "new IdMapper" "[(''id'', PInt 3)]" "PStr ''3''" "new IdMapper"
      "[(''id'', PInt 3)]" "PStr ''3''"]
  by simp

subsection \<open>The heuristic against the parser\<close>

text \<open>
  C10. On the default \<open>IdMapper\<close>, \<open>is_id\<close> returning false does not mean that
  \<open>get_id_from_path\<close> fails: on \<open>+5\<close> and on \<open>42\<close> preceded by a space \<open>is_id\<close> is false,
  yet \<open>get_id_from_path\<close> returns 5 and 42, because \<open>int\<close> accepts a sign and
  surrounding whitespace.
\<close>

theorem idmapper_is_id_false_but_int_parses:
  "fst (is_id (new IdMapper) (PStr ''+5'')) = Inr (PBool False)
   \<and> fst (get_id_from_path (new IdMapper) (PStr ''+5'')) = Inr (PInt 5)
   \<and> fst (is_id (new IdMapper) (PStr '' 42'')) = Inr (PBool False)
   \<and> fst (get_id_from_path (new IdMapper) (PStr '' 42'')) = Inr (PInt 42)"
  by (simp add: IdMapper_is_id IdMapper_get_id str_isdigit_def is_digit_char_def
      int_of_string_def is_space_def is_decimal_def decimal_value_def)

end
